theory Spec2Isabelle
  imports Main
begin

section \<open>The data handed between the stages (package model)\<close>

text \<open>
  \<^verbatim>\<open>main.go\<close> builds a \<^verbatim>\<open>model.Target\<close> from the command line, hands it to
  \<^verbatim>\<open>target.Resolve\<close>, hands the one resolved pid to \<^verbatim>\<open>process.BuildAncestry\<close>, and
  packs everything into a \<^verbatim>\<open>model.Result\<close>. The three target kinds are the constants
  \<^verbatim>\<open>model.TargetPID\<close>, \<^verbatim>\<open>model.TargetPort\<close> and \<^verbatim>\<open>model.TargetName\<close>.
\<close>

datatype TargetType = TargetPID | TargetPort | TargetName

record Target =
  Type :: TargetType
  Value :: string

text \<open>
  Modelled from the spec: the declaration of \<^verbatim>\<open>model.Process\<close> is not among the sources.
  \<^verbatim>\<open>main.go\<close> reads its field \<^verbatim>\<open>Command\<close> and uses its zero value; the other fields
  are those of the specification's ProcessSnapshot (pid, parentPid, state). The type of
  the state field is left open (\<open>'st\<close>), so nothing is assumed about how the lifecycle
  state is represented or what its zero value is.
\<close>

record 'st Process =
  PID :: int
  PPID :: int
  Command :: string
  State :: 'st

text \<open>
  The zero value of a Go struct has every field at its zero value: \<open>0\<close> for the integers,
  the empty string for \<^verbatim>\<open>Command\<close>, and the zero value \<open>z\<close> of the state's type.
\<close>

definition zeroProcess :: "'st \<Rightarrow> 'st Process" where
  "zeroProcess z = \<lparr>PID = 0, PPID = 0, Command = [], State = z\<rparr>"

text \<open>
  The composite literal of \<^verbatim>\<open>main.go\<close> lines 138 to 145. The types of the classification
  (\<open>'s\<close>) and of a warning (\<open>'w\<close>) are declared in packages that are not among the sources;
  \<^verbatim>\<open>main.go\<close> only stores them.
\<close>

record ('st, 's, 'w) Result =
  Target :: Target
  ResolvedTarget :: string
  Process :: "'st Process"
  Ancestry :: "'st Process list"
  Source :: 's
  Warnings :: "'w list"

section \<open>The command line\<close>

text \<open>
  The values \<^verbatim>\<open>flag.Parse\<close> leaves behind: the eight flags declared in lines 43 to 50
  and the remaining positional arguments \<^verbatim>\<open>flag.Args()\<close>.
\<close>

record Flags =
  pidFlag :: string
  portFlag :: string
  shortFlag :: bool
  treeFlag :: bool
  jsonFlag :: bool
  warnFlag :: bool
  noColorFlag :: bool
  helpFlag :: bool
  Args :: "string list"

text \<open>Line 34: an argument counts as a flag when it is non-empty and starts with a dash.\<close>

definition isFlagArg :: "string \<Rightarrow> bool" where
  "isFlagArg arg = (case arg of [] \<Rightarrow> False | c # _ \<Rightarrow> c = CHR ''-'')"

text \<open>
  Lines 31 to 40: the program name stays first, then every flag-like argument in its
  original order, then every other argument in its original order.
\<close>

definition reorderArgs :: "string \<Rightarrow> string list \<Rightarrow> string list" where
  "reorderArgs arg0 rest =
     [arg0] @ filter isFlagArg rest @ filter (\<lambda>arg. \<not> isFlagArg arg) rest"

text \<open>
  The \<^verbatim>\<open>switch\<close> of lines 61 to 71. \<open>None\<close> is the default branch (help text, exit
  status 1).
\<close>

definition selectTarget :: "Flags \<Rightarrow> Target option" where
  "selectTarget fl =
     (if pidFlag fl \<noteq> [] then Some \<lparr>Type = TargetPID, Value = pidFlag fl\<rparr>
      else if portFlag fl \<noteq> [] then Some \<lparr>Type = TargetPort, Value = portFlag fl\<rparr>
      else (case Args fl of
              a # _ \<Rightarrow> Some \<lparr>Type = TargetName, Value = a\<rparr>
            | [] \<Rightarrow> None))"

section \<open>Strings\<close>

text \<open>
  \<^verbatim>\<open>strings.Contains(s, substr)\<close>: \<open>substr\<close> occurs in \<open>s\<close> as a contiguous run of
  bytes. The empty string occurs in every string.
\<close>

fun HasPrefix :: "string \<Rightarrow> string \<Rightarrow> bool" where
  "HasPrefix s [] = True"
| "HasPrefix [] (p # ps) = False"
| "HasPrefix (c # cs) (p # ps) = (c = p \<and> HasPrefix cs ps)"

fun Contains :: "string \<Rightarrow> string \<Rightarrow> bool" where
  "Contains [] substr = (substr = [])"
| "Contains (c # cs) substr = (HasPrefix (c # cs) substr \<or> Contains cs substr)"

text \<open>Line 79: the text by which \<^verbatim>\<open>main.go\<close> recognises the resolver's ownership error.\<close>

definition ownerMarker :: string where
  "ownerMarker = ''socket found but owning process not detected''"

text \<open>Line 104: \<^verbatim>\<open>strings.ReplaceAll(s, "\x00", " ")\<close>.\<close>

definition nulToSpace :: "string \<Rightarrow> string" where
  "nulToSpace s = map (\<lambda>c. if c = CHR 0x00 then CHR '' '' else c) s"

section \<open>The collaborators of main\<close>

text \<open>
  \<^verbatim>\<open>main.go\<close> calls into packages that are not among the sources and into Go's standard
  library. Each call is a field of the record below, so that \<open>main\<close> is modelled for every
  behaviour they may have. A Go function returning \<^verbatim>\<open>(value, error)\<close> returns a sum, with
  \<open>Inl\<close> for a non-nil error; \<open>'e\<close> is the type of error values and \<open>Error\<close> their text
  (\<^verbatim>\<open>err.Error()\<close>).
  \<^item> \<open>flag_Parse\<close>: the flag package on the arguments after the program name; \<open>None\<close>
    when it rejects them (it then exits with status 2 itself).
  \<^item> \<open>target_Resolve\<close>, \<open>process_BuildAncestry\<close>, \<open>source_Detect\<close>, \<open>source_Warnings\<close>:
    the calls of lines 73, 116, 126 and 144.
  \<^item> \<open>os_ReadFile_cmdline\<close>: the bytes of \<^verbatim>\<open>/proc/<pid>/cmdline\<close>, \<open>None\<close> when the read
    fails (line 102).
  \<^item> \<open>strings_TrimSpace\<close>: line 105.
  \<^item> \<open>zero_State\<close>: the zero value of the state field of \<^verbatim>\<open>model.Process\<close>.
\<close>

record ('e, 'st, 's, 'w) Deps =
  flag_Parse :: "string list \<Rightarrow> Flags option"
  target_Resolve :: "Target \<Rightarrow> 'e + int list"
  Error :: "'e \<Rightarrow> string"
  os_ReadFile_cmdline :: "int \<Rightarrow> string option"
  strings_TrimSpace :: "string \<Rightarrow> string"
  process_BuildAncestry :: "int \<Rightarrow> 'e + 'st Process list"
  source_Detect :: "'st Process list \<Rightarrow> 's"
  source_Warnings :: "'st Process list \<Rightarrow> 'w list"
  zero_State :: 'st

section \<open>What a run of main does\<close>

text \<open>The five renderers of lines 147 to 165; the two text renderers take the colour switch.\<close>

datatype RenderMode = AsJSON | WarningsOnly | AsTree | AsShort bool | AsStandard bool

text \<open>
  Every way a run can end.
  \<^item> \<open>FlagsRejected\<close>: the flag package refused the command line.
  \<^item> \<open>HelpShown\<close>: line 55, exit status 0. \<open>UsageShown\<close>: line 69, exit status 1.
  \<^item> \<open>ResolveFailed text advice\<close>: lines 74 to 96. \<open>text\<close> is the error's text, printed as
    it is; \<open>advice\<close> is \<open>Some args\<close> when the hint to re-run under sudo is printed, with
    the command line \<open>args\<close> it prints, and \<open>None\<close> when the general "no matching
    process" text is printed. Exit status 1.
  \<^item> \<open>MultipleMatches rows\<close>: lines 98 to 112, one row (number, pid, command line) per
    candidate. Exit status 1.
  \<^item> \<open>AncestryFailed text\<close>: lines 117 to 124. Exit status 1.
  \<^item> \<open>Panicked\<close>: an index out of range (\<^verbatim>\<open>os.Args[0]\<close>, \<^verbatim>\<open>pids[0]\<close>).
  \<^item> \<open>Rendered mode res\<close>: the result \<open>res\<close> was built and handed to a renderer.
\<close>

datatype ('st, 's, 'w) Outcome =
    FlagsRejected
  | HelpShown
  | UsageShown
  | ResolveFailed string "string list option"
  | MultipleMatches "(nat \<times> int \<times> string) list"
  | AncestryFailed string
  | Panicked
  | Rendered RenderMode "('st, 's, 'w) Result"

fun exitStatus :: "('st, 's, 'w) Outcome \<Rightarrow> nat" where
  "exitStatus FlagsRejected = 2"
| "exitStatus HelpShown = 0"
| "exitStatus UsageShown = 1"
| "exitStatus (ResolveFailed text advice) = 1"
| "exitStatus (MultipleMatches rows) = 1"
| "exitStatus (AncestryFailed text) = 1"
| "exitStatus Panicked = 2"
| "exitStatus (Rendered mode res) = 0"

text \<open>Lines 101 to 106: the command line shown beside a candidate.\<close>

definition cmdlineOf :: "('e, 'st, 's, 'w) Deps \<Rightarrow> int \<Rightarrow> string" where
  "cmdlineOf deps pid =
     (case os_ReadFile_cmdline deps pid of
        None \<Rightarrow> ''(unknown)''
      | Some cmdlineBytes \<Rightarrow> strings_TrimSpace deps (nulToSpace cmdlineBytes))"

text \<open>Lines 100 to 108: the loop over \<^verbatim>\<open>pids\<close>, numbering the rows from 1.\<close>

fun listCandidates :: "('e, 'st, 's, 'w) Deps \<Rightarrow> nat \<Rightarrow> int list \<Rightarrow> (nat \<times> int \<times> string) list" where
  "listCandidates deps i [] = []"
| "listCandidates deps i (pid # pids) =
     (i + 1, pid, cmdlineOf deps pid) # listCandidates deps (i + 1) pids"

text \<open>
  Lines 126 to 145. The process and the resolved target are taken from the last element
  of the ancestry; an empty ancestry leaves the zero process and the text \<^verbatim>\<open>unknown\<close>.
\<close>

definition buildResult ::
  "('e, 'st, 's, 'w) Deps \<Rightarrow> Target \<Rightarrow> 'st Process list \<Rightarrow> ('st, 's, 'w) Result" where
  "buildResult deps t ancestry =
     (let src = source_Detect deps ancestry;
          proc = (if length ancestry > 0 then ancestry ! (length ancestry - 1)
                  else zeroProcess (zero_State deps));
          resolvedTarget = (if length ancestry > 0 then Command (ancestry ! (length ancestry - 1))
                            else ''unknown'')
      in \<lparr>Target = t, ResolvedTarget = resolvedTarget, Process = proc,
          Ancestry = ancestry, Source = src, Warnings = source_Warnings deps ancestry\<rparr>)"

text \<open>Lines 147 to 165: the first flag set, in this order, picks the renderer.\<close>

definition renderMode :: "Flags \<Rightarrow> RenderMode" where
  "renderMode fl =
     (if jsonFlag fl then AsJSON
      else if warnFlag fl then WarningsOnly
      else if treeFlag fl then AsTree
      else if shortFlag fl then AsShort (\<not> noColorFlag fl)
      else AsStandard (\<not> noColorFlag fl))"

text \<open>
  Lines 73 to 165, from the chosen target on: \<open>osArgs\<close> is the reordered command line
  (printed by the sudo hint) and \<open>mode\<close> the renderer the flags pick.
\<close>

definition explain ::
  "('e, 'st, 's, 'w) Deps \<Rightarrow> string list \<Rightarrow> RenderMode \<Rightarrow> Target \<Rightarrow> ('st, 's, 'w) Outcome" where
  "explain deps osArgs mode t =
     (case target_Resolve deps t of
        Inl err \<Rightarrow>
          (let errStr = Error deps err in
           ResolveFailed errStr (if Contains errStr ownerMarker then Some osArgs else None))
      | Inr pids \<Rightarrow>
          if length pids > 1 then MultipleMatches (listCandidates deps 0 pids)
          else (case pids of
                  [] \<Rightarrow> Panicked
                | pid # _ \<Rightarrow>
                    (case process_BuildAncestry deps pid of
                       Inl err \<Rightarrow> AncestryFailed (Error deps err)
                     | Inr ancestry \<Rightarrow> Rendered mode (buildResult deps t ancestry))))"

text \<open>The whole of \<^verbatim>\<open>main\<close>, on the command line \<^verbatim>\<open>os.Args\<close>.\<close>

definition main :: "('e, 'st, 's, 'w) Deps \<Rightarrow> string list \<Rightarrow> ('st, 's, 'w) Outcome" where
  "main deps osArgs =
     (case osArgs of
        [] \<Rightarrow> Panicked
      | arg0 # rest \<Rightarrow>
          (let reordered = reorderArgs arg0 rest in
           case flag_Parse deps (tl reordered) of
             None \<Rightarrow> FlagsRejected
           | Some fl \<Rightarrow>
               if helpFlag fl then HelpShown
               else (case selectTarget fl of
                       None \<Rightarrow> UsageShown
                     | Some t \<Rightarrow> explain deps reordered (renderMode fl) t)))"

section \<open>The resolver and the ancestry builder, as the specification describes them\<close>

text \<open>
  Modelled from the spec: the packages \<^verbatim>\<open>internal/target\<close> and \<^verbatim>\<open>internal/process\<close> are
  not among the sources. The definitions of this section follow sections 3, 4.1, 4.2 and 7
  of the specification. This datatype is its error taxonomy.
\<close>

datatype WitrError = InvalidQuery | NotFound | OwnerNotDetected

text \<open>
  Modelled from the spec: a SocketEntry (section 3). The specification lists the states
  only in part, so their type is left open (\<open>'ss\<close>).
\<close>

record 'ss SocketEntry =
  localPort :: nat
  isTCP :: bool
  state :: 'ss
  inode :: nat

text \<open>
  Modelled from the spec: the read-only view of the operating system of section 6.
  \<^item> \<open>processTable\<close>: the live processes, enumerable and addressable by pid;
  \<^item> \<open>socketTable\<close>: the socket entries of both protocols;
  \<^item> \<open>fdTable pid\<close>: the socket inodes held by the open descriptors of \<open>pid\<close>, \<open>None\<close>
    when the caller is not permitted to enumerate them;
  \<^item> \<open>activeState\<close>: the states that indicate "an actively bound/listening/established
    socket (not merely a historical entry)".
\<close>

record ('st, 'ss) System =
  processTable :: "'st Process list"
  socketTable :: "'ss SocketEntry list"
  fdTable :: "int \<Rightarrow> nat list option"
  activeState :: "'ss \<Rightarrow> bool"

text \<open>
  Modelled from the spec: the ProcessSnapshot Reader, one read of the process table.
  \<open>None\<close> is a failed read (no such process).
\<close>

definition readProcess :: "('st, 'ss) System \<Rightarrow> int \<Rightarrow> 'st Process option" where
  "readProcess sys pid = find (\<lambda>p. PID p = pid) (processTable sys)"

text \<open>
  Modelled from the spec: "value must parse as an integer", read as a non-empty string
  of decimal digits.
\<close>

definition digitValue :: "char \<Rightarrow> nat option" where
  "digitValue c =
     (if c \<in> set ''0123456789'' then Some (of_char c - of_char CHR ''0'') else None)"

fun parseDigits :: "nat \<Rightarrow> string \<Rightarrow> nat option" where
  "parseDigits acc [] = Some acc"
| "parseDigits acc (c # cs) =
     (case digitValue c of None \<Rightarrow> None | Some d \<Rightarrow> parseDigits (10 * acc + d) cs)"

definition parseNumber :: "string \<Rightarrow> nat option" where
  "parseNumber s = (if s = [] then None else parseDigits 0 s)"

text \<open>
  Modelled from the spec: section 4.1, port target, step 1: the entries "whose local port
  equals the target and whose state indicates an actively bound/listening/established
  socket".
\<close>

definition matchingSockets :: "('st, 'ss) System \<Rightarrow> nat \<Rightarrow> 'ss SocketEntry list" where
  "matchingSockets sys port =
     filter (\<lambda>s. localPort s = port \<and> activeState sys (state s)) (socketTable sys)"

text \<open>
  Modelled from the spec: the FD-to-Inode Correlator. A process whose descriptors cannot
  be enumerated is not seen to hold any inode.
\<close>

definition holdsInode :: "('st, 'ss) System \<Rightarrow> int \<Rightarrow> nat \<Rightarrow> bool" where
  "holdsInode sys pid ino =
     (case fdTable sys pid of None \<Rightarrow> False | Some inodes \<Rightarrow> List.member inodes ino)"

text \<open>
  Modelled from the spec: section 4.1, port target, step 2: "for each candidate socket
  inode, scan all live processes' file descriptor tables to find the owning process".
\<close>

definition socketOwners :: "('st, 'ss) System \<Rightarrow> 'ss SocketEntry list \<Rightarrow> int list" where
  "socketOwners sys socks =
     concat (map (\<lambda>s. map PID (filter (\<lambda>p. holdsInode sys (PID p) (inode s)) (processTable sys)))
                 socks)"

text \<open>
  Modelled from the spec: section 4.1, name target: "enumerates all live processes,
  matches command by case-sensitive substring".
\<close>

definition nameMatches :: "('st, 'ss) System \<Rightarrow> string \<Rightarrow> int list" where
  "nameMatches sys name =
     map PID (filter (\<lambda>p. Contains (Command p) name) (processTable sys))"

text \<open>
  Modelled from the spec: "candidate sets are always returned in ascending
  process-identifier order"; a set holds each pid once.
\<close>

definition ascending :: "int list \<Rightarrow> int list" where
  "ascending pids = sort (remdups pids)"

text \<open>
  Modelled from the spec: \<^verbatim>\<open>Resolve(target)\<close> of section 4.1, with the errors of section 7
  and the scenario "no socket in the table has local port 8080 yields NotFound" of
  section 8.
\<close>

definition Resolve :: "('st, 'ss) System \<Rightarrow> Target \<Rightarrow> WitrError + int list" where
  "Resolve sys t =
     (case Type t of
        TargetPID \<Rightarrow>
          (case parseNumber (Value t) of
             None \<Rightarrow> Inl InvalidQuery
           | Some n \<Rightarrow>
               if n < 1 then Inl InvalidQuery
               else (case readProcess sys (int n) of
                       None \<Rightarrow> Inl NotFound
                     | Some snap \<Rightarrow> Inr [int n]))
      | TargetName \<Rightarrow>
          (let pids = ascending (nameMatches sys (Value t)) in
           if pids = [] then Inl NotFound else Inr pids)
      | TargetPort \<Rightarrow>
          (case parseNumber (Value t) of
             None \<Rightarrow> Inl InvalidQuery
           | Some port \<Rightarrow>
               if port > 65535 then Inl InvalidQuery
               else (let socks = matchingSockets sys port;
                         pids = ascending (socketOwners sys socks)
                     in if socks = [] then Inl NotFound
                        else if pids = [] then Inl OwnerNotDetected
                        else Inr pids)))"

text \<open>
  Modelled from the spec: the walk of section 4.2. "Repeatedly read the ProcessSnapshot
  for the current identifier, append it to the sequence, then move to parentPid", ending
  at a self-parented process, at an unreadable identifier, or when the depth guard
  \<open>depth\<close> is used up. The specification gives no value for the guard; it is a parameter.
\<close>

fun walk :: "('st, 'ss) System \<Rightarrow> nat \<Rightarrow> int \<Rightarrow> 'st Process list" where
  "walk sys 0 cur = []"
| "walk sys (Suc depth) cur =
     (case readProcess sys cur of
        None \<Rightarrow> []
      | Some snap \<Rightarrow>
          if PPID snap = cur then [snap] else snap # walk sys depth (PPID snap))"

text \<open>
  Modelled from the spec: \<^verbatim>\<open>BuildAncestry(pid)\<close> of section 4.2: "fails with NotFound only
  if the initial read fails".
\<close>

definition BuildAncestry ::
  "('st, 'ss) System \<Rightarrow> nat \<Rightarrow> int \<Rightarrow> WitrError + 'st Process list" where
  "BuildAncestry sys maxDepth pid =
     (case readProcess sys pid of
        None \<Rightarrow> Inl NotFound
      | Some snap \<Rightarrow> Inr (walk sys maxDepth pid))"

section \<open>An example machine\<close>

text \<open>
  Modelled from the spec: the lifecycle states of a ProcessSnapshot (section 3), used as
  the state type of the examples.
\<close>

datatype ProcState = Running | Sleeping | Zombie | Stopped | Other

text \<open>
  The process tree of the specification's end-to-end scenario,
  \<^verbatim>\<open>init(1) -> sshd(500) -> sshd(600) -> bash(601)\<close>, and a web server owned by another
  user.
\<close>

definition init1 :: "ProcState Process" where
  "init1 = \<lparr>PID = 1, PPID = 1, Command = ''init'', State = Sleeping\<rparr>"

definition sshd500 :: "ProcState Process" where
  "sshd500 = \<lparr>PID = 500, PPID = 1, Command = ''sshd'', State = Sleeping\<rparr>"

definition sshd600 :: "ProcState Process" where
  "sshd600 = \<lparr>PID = 600, PPID = 500, Command = ''sshd'', State = Sleeping\<rparr>"

definition bash601 :: "ProcState Process" where
  "bash601 = \<lparr>PID = 601, PPID = 600, Command = ''bash'', State = Running\<rparr>"

definition nginx700 :: "ProcState Process" where
  "nginx700 = \<lparr>PID = 700, PPID = 1, Command = ''nginx'', State = Sleeping\<rparr>"

text \<open>A parsed command line with the three query values given and every switch off.\<close>

definition exampleFlags :: "string \<Rightarrow> string \<Rightarrow> string list \<Rightarrow> Flags" where
  "exampleFlags pid port names =
     \<lparr>pidFlag = pid, portFlag = port, shortFlag = False, treeFlag = False, jsonFlag = False,
      warnFlag = False, noColorFlag = False, helpFlag = False, Args = names\<rparr>"

text \<open>
  Collaborators for the examples: the flag package yields \<open>fl\<close>, the resolver is
  \<open>resolve\<close> with error texts \<open>errText\<close>, the ancestry builder is \<open>build\<close>, only the
  command line of pid 500 can be read, trimming removes trailing blanks, and the
  classifier finds nothing.
\<close>

definition exampleDeps ::
  "Flags \<Rightarrow> (Target \<Rightarrow> 'e + int list) \<Rightarrow> ('e \<Rightarrow> string)
     \<Rightarrow> (int \<Rightarrow> 'e + ProcState Process list) \<Rightarrow> ('e, ProcState, string, string) Deps" where
  "exampleDeps fl resolve errText build =
     \<lparr>flag_Parse = (\<lambda>args. Some fl),
      target_Resolve = resolve,
      Error = errText,
      os_ReadFile_cmdline =
        (\<lambda>pid. if pid = 500 then Some (''sshd'' @ [CHR 0x00] @ ''-D'' @ [CHR 0x00]) else None),
      strings_TrimSpace = (\<lambda>s. rev (dropWhile (\<lambda>c. c = CHR '' '') (rev s))),
      process_BuildAncestry = build,
      source_Detect = (\<lambda>anc. ''unknown''),
      source_Warnings = (\<lambda>anc. []),
      zero_State = Other\<rparr>"


text \<open>\<^verbatim>\<open>witr --pid=601 --port=8080 sshd\<close>: all three kinds of query at once.\<close>

definition precedenceDeps :: "(string, ProcState, string, string) Deps" where
  "precedenceDeps =
     exampleDeps (exampleFlags ''601'' ''8080'' [''sshd''])
       (\<lambda>t. if Type t = TargetPID \<and> Value t = ''601'' then Inr [601]
            else Inl ''no matching process'')
       (\<lambda>err. err)
       (\<lambda>pid. if pid = 601 then Inr [bash601] else Inl ''no such process'')"

text \<open>\<^verbatim>\<open>witr --pid=601\<close> with an ancestry builder that answers with no elements.\<close>

definition emptyAncestryDeps :: "(string, ProcState, string, string) Deps" where
  "emptyAncestryDeps =
     exampleDeps (exampleFlags ''601'' [] [])
       (\<lambda>t. if Value t = ''601'' then Inr [601] else Inl ''no matching process'')
       (\<lambda>err. err)
       (\<lambda>pid. Inr [])"

text \<open>\<^verbatim>\<open>witr sshd\<close>: the name matches the two sshd processes.\<close>

definition ambiguousDeps :: "(string, ProcState, string, string) Deps" where
  "ambiguousDeps =
     exampleDeps (exampleFlags [] [] [''sshd''])
       (\<lambda>t. if Value t = ''sshd'' then Inr [500, 600] else Inl ''no matching process'')
       (\<lambda>err. err)
       (\<lambda>pid. if pid = 500 then Inr [init1, sshd500] else Inl ''no such process'')"

text \<open>The socket states of the example machine; \<open>TIME_WAIT\<close> is a historical entry.\<close>

datatype SocketState = LISTEN | ESTABLISHED | TIME_WAIT

text \<open>
  The example machine: sshd(500) listens on port 22 through inode 7001; a socket with
  inode 9001 listens on port 8080, and it belongs to nginx(700), whose descriptors the
  caller may not enumerate; port 2222 has only a historical entry.
\<close>

definition exampleSystem :: "(ProcState, SocketState) System" where
  "exampleSystem =
     \<lparr>processTable = [init1, nginx700, bash601, sshd600, sshd500],
      socketTable =
        [\<lparr>localPort = 22, isTCP = True, state = LISTEN, inode = 7001\<rparr>,
         \<lparr>localPort = 8080, isTCP = True, state = LISTEN, inode = 9001\<rparr>,
         \<lparr>localPort = 2222, isTCP = True, state = TIME_WAIT, inode = 7002\<rparr>],
      fdTable =
        (\<lambda>pid. if pid = 500 then Some [7001]
               else if pid = 600 \<or> pid = 601 then Some []
               else None),
      activeState = (\<lambda>s. s \<noteq> TIME_WAIT)\<rparr>"






section \<open>Properties of main\<close>

lemma listCandidates_pids:
  "map (\<lambda>row. fst (snd row)) (listCandidates deps i pids) = pids"
  by (induction pids arbitrary: i) auto

lemma cmdlineOf_independent:
  "cmdlineOf (deps\<lparr>process_BuildAncestry := ba, source_Detect := det, source_Warnings := ws\<rparr>) pid
     = cmdlineOf deps pid"
  by (simp add: cmdlineOf_def split: option.splits)

lemma listCandidates_independent:
  "listCandidates (deps\<lparr>process_BuildAncestry := ba, source_Detect := det, source_Warnings := ws\<rparr>)
       i pids
     = listCandidates deps i pids"
  by (induction pids arbitrary: i) (simp_all add: cmdlineOf_independent)





text \<open>
  Claim C8. When the resolver returns more than one pid, \<open>main\<close> ends with the listing of
  all of them, in the resolver's order, and exit status 1. It picks none: the run is the
  same whatever the ancestry builder, the classifier and the warning generator would
  do, so none of them takes part in it.
\<close>

theorem multiple_candidates_listed:
  assumes "flag_Parse deps (tl (reorderArgs arg0 rest)) = Some fl" and "\<not> helpFlag fl"
    and "selectTarget fl = Some t"
    and "target_Resolve deps t = Inr pids"
    and "length pids > 1"
  shows "main deps (arg0 # rest) = MultipleMatches (listCandidates deps 0 pids)
       \<and> map (\<lambda>row. fst (snd row)) (listCandidates deps 0 pids) = pids
       \<and> exitStatus (main deps (arg0 # rest)) = 1
       \<and> main (deps\<lparr>process_BuildAncestry := ba, source_Detect := det, source_Warnings := ws\<rparr>)
              (arg0 # rest)
           = main deps (arg0 # rest)"
proof -
  have m: "main deps (arg0 # rest) = MultipleMatches (listCandidates deps 0 pids)"
    using assms by (simp add: main_def Let_def explain_def)
  have "main (deps\<lparr>process_BuildAncestry := ba, source_Detect := det, source_Warnings := ws\<rparr>)
          (arg0 # rest)
        = MultipleMatches (listCandidates deps 0 pids)"
    using assms by (simp add: main_def Let_def explain_def listCandidates_independent)
  then show ?thesis using m by (simp add: listCandidates_pids)
qed

text \<open>Claim C8 on \<^verbatim>\<open>witr sshd\<close>: both sshd processes are listed, neither is explained.\<close>

theorem multiple_candidates_listed_witness:
  "target_Resolve ambiguousDeps \<lparr>Type = TargetName, Value = ''sshd''\<rparr> = Inr [500, 600]
   \<and> main ambiguousDeps [''witr'', ''sshd'']
       = MultipleMatches [(1, 500, ''sshd -D''), (2, 600, ''(unknown)'')]"
  using multiple_candidates_listed
    [of ambiguousDeps "''witr''" "[''sshd'']" "exampleFlags [] [] [''sshd'']"
        "\<lparr>Type = TargetName, Value = ''sshd''\<rparr>" "[500, 600]"]
  by (simp add: ambiguousDeps_def exampleDeps_def exampleFlags_def selectTarget_def
      cmdlineOf_def nulToSpace_def)

text \<open>
  Claim C9. A command line that the flag package accepts and that does not ask for help
  is never refused for giving more than one query: a non-empty \<^verbatim>\<open>--pid\<close> value is
  explained whatever \<^verbatim>\<open>--port\<close> and the positional arguments are; otherwise a non-empty
  \<^verbatim>\<open>--port\<close> value is explained whatever the positional arguments are; otherwise the
  first positional argument is explained as a name; the usage text is shown only when
  all three are missing.
\<close>

theorem query_precedence:
  assumes "flag_Parse deps (tl (reorderArgs arg0 rest)) = Some fl" and "\<not> helpFlag fl"
  shows "main deps (arg0 # rest) =
     (if pidFlag fl \<noteq> [] then
        explain deps (reorderArgs arg0 rest) (renderMode fl)
          \<lparr>Type = TargetPID, Value = pidFlag fl\<rparr>
      else if portFlag fl \<noteq> [] then
        explain deps (reorderArgs arg0 rest) (renderMode fl)
          \<lparr>Type = TargetPort, Value = portFlag fl\<rparr>
      else if Args fl \<noteq> [] then
        explain deps (reorderArgs arg0 rest) (renderMode fl)
          \<lparr>Type = TargetName, Value = hd (Args fl)\<rparr>
      else UsageShown)"
  using assms by (simp add: main_def Let_def selectTarget_def split: list.splits)

text \<open>
  Claim C9 on \<^verbatim>\<open>witr --pid=601 --port=8080 sshd\<close>: the pid is explained, the port and
  the name play no part.
\<close>

theorem query_precedence_witness:
  "flag_Parse precedenceDeps (tl (reorderArgs ''witr'' [''--pid=601'', ''--port=8080'', ''sshd'']))
     = Some (exampleFlags ''601'' ''8080'' [''sshd''])
   \<and> main precedenceDeps [''witr'', ''--pid=601'', ''--port=8080'', ''sshd'']
       = Rendered (AsStandard True)
           \<lparr>Target = \<lparr>Type = TargetPID, Value = ''601''\<rparr>, ResolvedTarget = ''bash'',
            Process = bash601, Ancestry = [bash601], Source = ''unknown'', Warnings = []\<rparr>"
  using query_precedence
    [of precedenceDeps "''witr''" "[''--pid=601'', ''--port=8080'', ''sshd'']"
        "exampleFlags ''601'' ''8080'' [''sshd'']"]
  by (simp add: precedenceDeps_def exampleDeps_def exampleFlags_def renderMode_def explain_def
      buildResult_def bash601_def)

text \<open>
  Claim C10. When the ancestry builder succeeds with an empty sequence, the run still ends
  with a rendered result, exit status 0: its resolved target is the text \<^verbatim>\<open>unknown\<close>,
  its process is the zero value, and its classification and warnings are those of the
  empty sequence.
\<close>

theorem empty_ancestry_result:
  assumes "flag_Parse deps (tl (reorderArgs arg0 rest)) = Some fl" and "\<not> helpFlag fl"
    and "selectTarget fl = Some t"
    and "target_Resolve deps t = Inr [pid]"
    and "process_BuildAncestry deps pid = Inr []"
  shows "main deps (arg0 # rest) =
           Rendered (renderMode fl)
             \<lparr>Target = t, ResolvedTarget = ''unknown'', Process = zeroProcess (zero_State deps),
              Ancestry = [], Source = source_Detect deps [], Warnings = source_Warnings deps []\<rparr>
         \<and> exitStatus (main deps (arg0 # rest)) = 0"
  using assms by (simp add: main_def Let_def explain_def buildResult_def)

text \<open>Claim C10 on \<^verbatim>\<open>witr --pid=601\<close> with an ancestry builder that returns nothing.\<close>

theorem empty_ancestry_result_witness:
  "process_BuildAncestry emptyAncestryDeps 601 = Inr []
   \<and> main emptyAncestryDeps [''witr'', ''--pid=601'']
       = Rendered (AsStandard True)
           \<lparr>Target = \<lparr>Type = TargetPID, Value = ''601''\<rparr>, ResolvedTarget = ''unknown'',
            Process = \<lparr>PID = 0, PPID = 0, Command = [], State = Other\<rparr>, Ancestry = [],
            Source = ''unknown'', Warnings = []\<rparr>"
  using empty_ancestry_result
    [of emptyAncestryDeps "''witr''" "[''--pid=601'']" "exampleFlags ''601'' [] []"
        "\<lparr>Type = TargetPID, Value = ''601''\<rparr>" 601]
  by (simp add: emptyAncestryDeps_def exampleDeps_def exampleFlags_def selectTarget_def
      renderMode_def zeroProcess_def)

section \<open>Properties of the resolver and the ancestry builder of the specification\<close>

lemma HasPrefix_iff: "HasPrefix s p \<longleftrightarrow> (\<exists>v. s = p @ v)"
  by (induction s p rule: HasPrefix.induct) auto

text \<open>\<open>Contains\<close> is the substring relation on byte strings; no letter case is folded.\<close>

lemma Contains_iff: "Contains s sub \<longleftrightarrow> (\<exists>u v. s = u @ sub @ v)"
proof (induction s)
  case Nil
  then show ?case by auto
next
  case (Cons c cs)
  show ?case
  proof
    assume "Contains (c # cs) sub"
    then consider "HasPrefix (c # cs) sub" | "Contains cs sub" by auto
    then show "\<exists>u v. c # cs = u @ sub @ v"
    proof cases
      case 1
      then obtain v where "c # cs = sub @ v" by (auto simp: HasPrefix_iff)
      then have "c # cs = [] @ sub @ v" by simp
      then show ?thesis by blast
    next
      case 2
      then obtain u v where "cs = u @ sub @ v" using Cons.IH by auto
      then have "c # cs = (c # u) @ sub @ v" by simp
      then show ?thesis by blast
    qed
  next
    assume "\<exists>u v. c # cs = u @ sub @ v"
    then obtain u v where uv: "c # cs = u @ sub @ v" by auto
    show "Contains (c # cs) sub"
    proof (cases u)
      case Nil
      then have "HasPrefix (c # cs) sub" using uv by (auto simp: HasPrefix_iff)
      then show ?thesis by simp
    next
      case (Cons a u')
      then have "cs = u' @ sub @ v" using uv by simp
      then have "Contains cs sub" using Cons.IH by blast
      then show ?thesis by simp
    qed
  qed
qed

lemma ascending_props:
  "set (ascending pids) = set pids \<and> sorted (ascending pids) \<and> distinct (ascending pids)"
  by (simp add: ascending_def)

lemma ascending_Nil: "ascending pids = [] \<longleftrightarrow> pids = []"
proof -
  have "ascending pids = [] \<longleftrightarrow> set (ascending pids) = {}" by simp
  also have "\<dots> \<longleftrightarrow> set pids = {}" by (simp add: ascending_def)
  also have "\<dots> \<longleftrightarrow> pids = []" by simp
  finally show ?thesis .
qed

lemma set_nameMatches:
  "set (nameMatches sys name) =
     {PID p |p. p \<in> set (processTable sys) \<and> (\<exists>u v. Command p = u @ name @ v)}"
  by (auto simp: nameMatches_def Contains_iff)






lemma readProcess_Some:
  assumes "readProcess sys pid = Some snap"
  shows "PID snap = pid \<and> snap \<in> set (processTable sys)"
proof -
  have "find (\<lambda>p. PID p = pid) (processTable sys) = Some snap"
    using assms by (simp add: readProcess_def)
  then obtain i where "i < length (processTable sys)" "PID (processTable sys ! i) = pid"
    "snap = processTable sys ! i"
    unfolding find_Some_iff by blast
  then show ?thesis by auto
qed

lemma walk_head: "walk sys depth cur \<noteq> [] \<Longrightarrow> PID (hd (walk sys depth cur)) = cur"
  by (cases depth) (auto split: option.splits if_splits dest: readProcess_Some)

lemma walk_links:
  "Suc i < length (walk sys depth cur) \<Longrightarrow>
     PPID (walk sys depth cur ! i) = PID (walk sys depth cur ! Suc i)"
proof (induction depth arbitrary: cur i)
  case 0
  then show ?case by simp
next
  case (Suc depth)
  then obtain snap where snap: "readProcess sys cur = Some snap" and nr: "PPID snap \<noteq> cur"
    and w: "walk sys (Suc depth) cur = snap # walk sys depth (PPID snap)"
    by (auto split: option.splits if_splits)
  show ?case
  proof (cases i)
    case 0
    then have ne: "walk sys depth (PPID snap) \<noteq> []" using Suc.prems w by auto
    then have "PID (hd (walk sys depth (PPID snap))) = PPID snap" by (rule walk_head)
    then show ?thesis using 0 w ne by (simp add: hd_conv_nth)
  next
    case (Suc j)
    then have "Suc j < length (walk sys depth (PPID snap))" using Suc.prems w by simp
    then have "PPID (walk sys depth (PPID snap) ! j) = PID (walk sys depth (PPID snap) ! Suc j)"
      by (rule Suc.IH)
    then show ?thesis using Suc w by simp
  qed
qed

lemma build_example:
  "BuildAncestry exampleSystem 16 601 = Inr [bash601, sshd600, sshd500, init1]"
  by (simp add: BuildAncestry_def readProcess_def exampleSystem_def numeral_eq_Suc
      init1_def nginx700_def bash601_def sshd600_def sshd500_def)

text \<open>
  Claim C4. In every sequence the ancestry builder returns, each element that has a
  successor records that successor's pid as its parent; nothing is said of the last
  element, the root or the point where the walk was cut.
\<close>

theorem ancestry_links:
  assumes "BuildAncestry sys maxDepth pid = Inr ancestry" and "Suc i < length ancestry"
  shows "PPID (ancestry ! i) = PID (ancestry ! Suc i)"
  using assms walk_links[of i sys maxDepth pid]
  by (auto simp: BuildAncestry_def split: option.splits)

text \<open>Claim C4 on the example machine, at the link from sshd(500) to init(1).\<close>

theorem ancestry_links_witness:
  "BuildAncestry exampleSystem 16 601 = Inr [bash601, sshd600, sshd500, init1]
   \<and> PPID ([bash601, sshd600, sshd500, init1] ! 2) = PID ([bash601, sshd600, sshd500, init1] ! Suc 2)"
  using ancestry_links [of exampleSystem 16 601 "[bash601, sshd600, sshd500, init1]" 2]
  by (simp add: build_example)

lemma resolve_example_name:
  "Resolve exampleSystem \<lparr>Type = TargetName, Value = ''sshd''\<rparr> = Inr [500, 600]"
  by (simp add: Resolve_def exampleSystem_def nameMatches_def ascending_def Let_def
      init1_def nginx700_def bash601_def sshd600_def sshd500_def)

text \<open>
  Claim C5. For a name query the resolver either returns a non-empty list of pids, which
  holds exactly the pids of the live processes whose command has the query as a substring
  (byte for byte, so case-sensitively), each once and in ascending order; or it fails
  with \<open>NotFound\<close>, and then no live process matches.
\<close>

theorem name_query_matches:
  assumes "Type t = TargetName"
  shows "(case Resolve sys t of
            Inr pids \<Rightarrow>
              pids \<noteq> []
              \<and> set pids = {PID p |p. p \<in> set (processTable sys)
                                    \<and> (\<exists>u v. Command p = u @ Value t @ v)}
              \<and> sorted pids \<and> distinct pids
          | Inl err \<Rightarrow>
              err = NotFound
              \<and> {PID p |p. p \<in> set (processTable sys)
                         \<and> (\<exists>u v. Command p = u @ Value t @ v)} = {})"
proof (cases "nameMatches sys (Value t) = []")
  case True
  then have "Resolve sys t = Inl NotFound"
    using assms by (simp add: Resolve_def Let_def ascending_Nil)
  moreover have "set (nameMatches sys (Value t)) = {}" using True by simp
  ultimately show ?thesis unfolding set_nameMatches by simp
next
  case False
  then have "Resolve sys t = Inr (ascending (nameMatches sys (Value t)))"
    using assms by (simp add: Resolve_def Let_def ascending_Nil)
  then show ?thesis
    using False ascending_props[of "nameMatches sys (Value t)"]
    by (simp add: ascending_Nil set_nameMatches)
qed

text \<open>
  Claim C5 on the example machine: the table lists sshd(600) before sshd(500), the
  answer to \<^verbatim>\<open>sshd\<close> is 500 then 600, and these are all the matching processes.
\<close>

theorem name_query_matches_witness:
  "Resolve exampleSystem \<lparr>Type = TargetName, Value = ''sshd''\<rparr> = Inr [500, 600]
   \<and> {PID p |p. p \<in> set (processTable exampleSystem) \<and> (\<exists>u v. Command p = u @ ''sshd'' @ v)}
       = {500, 600}"
  using name_query_matches [of "\<lparr>Type = TargetName, Value = ''sshd''\<rparr>" exampleSystem]
  by (simp add: resolve_example_name)

end
